theory Spec2Isabelle
  imports Complex_Main "HOL-Library.Char_ord" "HOL-Library.List_Lexorder" "HOL-Library.Option_ord"
begin

section \<open>Identity service: role hierarchy (gui/user\_management\_gui.py)\<close>

text \<open>
  \<^verbatim>\<open>ROLE_LEVELS = {'viewer': 0, 'operator': 1, 'admin3': 2, 'admin2': 3, 'admin1': 4}\<close>
  is a dictionary; \<^verbatim>\<open>_role_level\<close> reads it with \<^verbatim>\<open>.get(role, -1)\<close>, so a
  role that is not a key has level \<open>-1\<close>.
\<close>

definition ROLE_LEVELS :: "(string \<times> int) list" where
  "ROLE_LEVELS =
     [(''viewer'', 0), (''operator'', 1), (''admin3'', 2), (''admin2'', 3), (''admin1'', 4)]"

definition ALL_ROLES :: "string list" where
  "ALL_ROLES = [''viewer'', ''operator'', ''admin3'', ''admin2'', ''admin1'']"

definition role_level :: "string \<Rightarrow> int" where
  "role_level role = (case map_of ROLE_LEVELS role of None \<Rightarrow> - 1 | Some l \<Rightarrow> l)"

text \<open>
  \<^verbatim>\<open>_can_manage_role(self, target_role)\<close>; the first argument is
  \<^verbatim>\<open>self.current_role\<close>, the role of the acting user.
\<close>

definition can_manage_role :: "string \<Rightarrow> string \<Rightarrow> bool" where
  "can_manage_role current_role target_role \<longleftrightarrow>
     role_level target_role < role_level current_role"

text \<open>\<^verbatim>\<open>_allowed_new_roles\<close>: the loop over \<^verbatim>\<open>ALL_ROLES\<close> appends in order.\<close>

definition allowed_new_roles :: "string \<Rightarrow> string list" where
  "allowed_new_roles current_role =
     filter (\<lambda>role. if current_role = ''admin1'' then True
                     else role_level role < role_level current_role) ALL_ROLES"

section \<open>Persistent store (database.py, \_migration\_1)\<close>

text \<open>
  One record per table of \<^verbatim>\<open>_migration_1\<close>, one field per column. A table is the
  list of its rows in rowid order. \<^verbatim>\<open>TEXT\<close> columns are strings, nullable
  columns are options, \<^verbatim>\<open>DATE\<close> columns hold the ISO text that \<^verbatim>\<open>date('now')\<close>
  produces and are compared as text, as SQLite does. The \<^verbatim>\<open>last_modified\<close> columns
  hold the wall clock of each statement; only \<^verbatim>\<open>get_last_change_time\<close> reads them,
  and the tables are modelled without them.
\<close>

record customer =
  c_id :: string
  c_name :: string
  c_phone :: "string option"
  c_email :: "string option"
  c_pin4 :: "string option"

record material =
  m_id :: int
  m_name :: string
  m_model :: string
  m_producer :: "string option"
  m_description :: "string option"
  m_image_path :: "string option"
  m_retail_price :: "real option"
  m_is_used :: int
  m_warranty_months :: "int option"
  m_category :: "string option"
  m_auto_category :: "string option"
  m_auto_confidence :: real
  m_model_family :: "string option"

record serial_number =
  s_serial :: string
  s_material_id :: int
  s_production_date :: "string option"
  s_acquisition_date :: "string option"
  s_warranty_expiration :: "string option"
  s_assigned_to :: "string option"
  s_extra_json :: "string option"
  s_retail_price :: "real option"

record assignment =
  a_id :: int
  a_customer_id :: string
  a_serial :: string
  a_assigned_date :: string
  a_material_id :: int
  a_material_name :: string
  a_material_model :: string
  a_warranty_expiration :: "string option"
  a_deleted :: int
  a_extra_json :: "string option"

text \<open>
  \<^verbatim>\<open>materials.id\<close> and \<^verbatim>\<open>assignments.id\<close> are \<^verbatim>\<open>AUTOINCREMENT\<close>: SQLite
  keeps the largest rowid ever used per table (\<^verbatim>\<open>sqlite_sequence\<close>) and gives a new
  row one more than the larger of that and the largest rowid in the table.
\<close>

record database =
  customers :: "customer list"
  materials :: "material list"
  materials_seq :: int
  serial_numbers :: "serial_number list"
  assignments :: "assignment list"
  assignments_seq :: int

definition empty_database :: database where
  "empty_database = \<lparr>customers = [], materials = [], materials_seq = 0,
     serial_numbers = [], assignments = [], assignments_seq = 0\<rparr>"

datatype error = ValueError string | IntegrityError string | IndexError

definition next_rowid :: "int \<Rightarrow> int list \<Rightarrow> int" where
  "next_rowid seq ids = fold max ids seq + 1"

section \<open>Inventory service (database.py)\<close>

text \<open>
  The connection runs \<^verbatim>\<open>PRAGMA foreign_keys = ON\<close>, so the \<^verbatim>\<open>REFERENCES\<close>
  clauses of the tables are enforced: an insert whose parent row is missing raises
  \<^verbatim>\<open>sqlite3.IntegrityError\<close>, and deleting a serial row deletes the assignment rows
  that reference it (\<^verbatim>\<open>ON DELETE CASCADE\<close>).
\<close>

definition add_customer ::
  "string \<Rightarrow> string \<Rightarrow> string option \<Rightarrow> string option \<Rightarrow> string option \<Rightarrow> database
     \<Rightarrow> error + database" where
  "add_customer customer_id name phone email pin4 db =
     (if customer_id \<in> set (map c_id (customers db))
      then Inl (IntegrityError ''UNIQUE constraint failed: customers.id'')
      else Inr (db\<lparr>customers := customers db @
             [\<lparr>c_id = customer_id, c_name = name, c_phone = phone, c_email = email,
               c_pin4 = pin4\<rparr>]\<rparr>))"

text \<open>\<^verbatim>\<open>add_material\<close> returns the new state and \<^verbatim>\<open>cur.lastrowid\<close>.\<close>

definition add_material ::
  "string \<Rightarrow> string \<Rightarrow> string option \<Rightarrow> string option \<Rightarrow> string option \<Rightarrow> real option
     \<Rightarrow> int \<Rightarrow> int option \<Rightarrow> database \<Rightarrow> database \<times> int" where
  "add_material name model producer description image_path retail_price is_used
       warranty_months db =
     (let material_id = next_rowid (materials_seq db) (map m_id (materials db))
      in (db\<lparr>materials := materials db @
             [\<lparr>m_id = material_id, m_name = name, m_model = model, m_producer = producer,
               m_description = description, m_image_path = image_path,
               m_retail_price = retail_price, m_is_used = is_used,
               m_warranty_months = warranty_months, m_category = None,
               m_auto_category = None, m_auto_confidence = 0, m_model_family = None\<rparr>],
            materials_seq := material_id\<rparr>, material_id))"

text \<open>
  \<^verbatim>\<open>get_serials_by_material\<close>: \<^verbatim>\<open>ORDER BY production_date\<close> puts \<^verbatim>\<open>NULL\<close> first;
  rows with equal dates stay in table order (SQLite leaves their order open).
\<close>

definition get_serials_by_material :: "int \<Rightarrow> bool \<Rightarrow> database \<Rightarrow> serial_number list" where
  "get_serials_by_material material_id include_assigned db =
     (if include_assigned
      then sort_key s_production_date
             (filter (\<lambda>r. s_material_id r = material_id) (serial_numbers db))
      else sort_key s_production_date
             (filter (\<lambda>r. s_material_id r = material_id \<and> s_assigned_to r = None)
                (serial_numbers db)))"

text \<open>
  \<^verbatim>\<open>add_serials_to_material\<close>: one \<^verbatim>\<open>INSERT\<close> per serial; an
  \<^verbatim>\<open>IntegrityError\<close> (the serial is already a primary key, or the material row is
  missing) is caught and the serial skipped.
\<close>

definition insert_serial ::
  "int \<Rightarrow> string option \<Rightarrow> string option \<Rightarrow> real option \<Rightarrow> database \<Rightarrow> string \<Rightarrow> database" where
  "insert_serial material_id production_date acquisition_date retail_price db serial =
     (if serial \<in> set (map s_serial (serial_numbers db))
         \<or> material_id \<notin> set (map m_id (materials db))
      then db
      else db\<lparr>serial_numbers := serial_numbers db @
             [\<lparr>s_serial = serial, s_material_id = material_id,
               s_production_date = production_date, s_acquisition_date = acquisition_date,
               s_warranty_expiration = None, s_assigned_to = None, s_extra_json = None,
               s_retail_price = retail_price\<rparr>]\<rparr>)"

primrec add_serials_to_material ::
  "int \<Rightarrow> string list \<Rightarrow> string option \<Rightarrow> string option \<Rightarrow> real option \<Rightarrow> database \<Rightarrow> database" where
  "add_serials_to_material material_id [] production_date acquisition_date retail_price db = db"
| "add_serials_to_material material_id (serial # serials) production_date acquisition_date
       retail_price db =
     add_serials_to_material material_id serials production_date acquisition_date retail_price
       (insert_serial material_id production_date acquisition_date retail_price db serial)"

text \<open>
  \<^verbatim>\<open>delete_serials\<close>: the rows whose serial is in the list go, and with each of them
  the assignment rows whose \<^verbatim>\<open>serial\<close> column references it.
\<close>

definition delete_serials :: "string list \<Rightarrow> database \<Rightarrow> database" where
  "delete_serials serials db =
     (let removed = filter (\<lambda>r. s_serial r \<in> set serials) (serial_numbers db)
      in db\<lparr>serial_numbers := filter (\<lambda>r. s_serial r \<notin> set serials) (serial_numbers db),
            assignments := filter (\<lambda>a. a_serial a \<notin> set (map s_serial removed))
                             (assignments db)\<rparr>)"




text \<open>
  \<^verbatim>\<open>assign_serial_to_customer\<close>; \<open>today\<close> is what \<^verbatim>\<open>date('now')\<close> gives. The two
  \<^verbatim>\<open>raise ValueError\<close> come before any write. The \<^verbatim>\<open>INSERT INTO assignments\<close> checks
  its three foreign keys: the serial and the material were just read, so only a missing
  customer row can fail it, and the failing statement writes nothing.
\<close>

definition assign_serial_to_customer ::
  "string \<Rightarrow> string \<Rightarrow> string \<Rightarrow> database \<Rightarrow> error + database" where
  "assign_serial_to_customer customer_id serial today db =
     (case find (\<lambda>r. s_serial r = serial \<and> s_assigned_to r = None) (serial_numbers db) of
        None \<Rightarrow> Inl (ValueError (''Serial '' @ serial @ '' not available or does not exist''))
      | Some res \<Rightarrow>
          (case find (\<lambda>m. m_id m = s_material_id res) (materials db) of
             None \<Rightarrow> Inl (ValueError (''Material for serial '' @ serial @ '' not found''))
           | Some mat \<Rightarrow>
               if customer_id \<notin> set (map c_id (customers db))
               then Inl (IntegrityError ''FOREIGN KEY constraint failed'')
               else
                 let new_id = next_rowid (assignments_seq db) (map a_id (assignments db))
                 in Inr (db\<lparr>assignments := assignments db @
                          [\<lparr>a_id = new_id, a_customer_id = customer_id, a_serial = serial,
                            a_assigned_date = today, a_material_id = s_material_id res,
                            a_material_name = m_name mat, a_material_model = m_model mat,
                            a_warranty_expiration = s_warranty_expiration res,
                            a_deleted = 0, a_extra_json = None\<rparr>],
                        assignments_seq := new_id,
                        serial_numbers :=
                          map (\<lambda>r. if s_serial r = serial
                                    then r\<lparr>s_assigned_to := Some customer_id\<rparr> else r)
                            (serial_numbers db)\<rparr>)))"

text \<open>
  \<^verbatim>\<open>unassign_serial\<close>. \<^verbatim>\<open>ORDER BY assigned_date DESC LIMIT 1\<close> takes a row with the
  latest date; among rows of equal date the model takes the first in table order.
\<close>

fun most_recent :: "assignment list \<Rightarrow> assignment option" where
  "most_recent [] = None"
| "most_recent (a # rest) =
     (case most_recent rest of
        None \<Rightarrow> Some a
      | Some b \<Rightarrow> if a_assigned_date a < a_assigned_date b then Some b else Some a)"

definition unassign_serial :: "string \<Rightarrow> bool \<Rightarrow> database \<Rightarrow> database" where
  "unassign_serial serial force db =
     (let row = most_recent
                  (filter (\<lambda>a. a_serial a = serial \<and> a_deleted a = 0) (assignments db));
          rows = (case row of
                    None \<Rightarrow> assignments db
                  | Some a \<Rightarrow>
                      if force then filter (\<lambda>x. a_id x \<noteq> a_id a) (assignments db)
                      else map (\<lambda>x. if a_id x = a_id a then x\<lparr>a_deleted := 1\<rparr> else x)
                             (assignments db))
      in db\<lparr>assignments := rows,
            serial_numbers :=
              map (\<lambda>r. if s_serial r = serial then r\<lparr>s_assigned_to := None\<rparr> else r)
                (serial_numbers db)\<rparr>)"

text \<open>
  \<^verbatim>\<open>transfer_serials_to_used\<close>: the body of the loop for one serial, then the loop.
  \<^verbatim>\<open>continue\<close> leaves the state as it is.
\<close>

definition transfer_serial :: "string option \<Rightarrow> database \<Rightarrow> string \<Rightarrow> database" where
  "transfer_serial from_customer db serial =
     (case find (\<lambda>r. s_serial r = serial) (serial_numbers db) of
        None \<Rightarrow> db
      | Some row \<Rightarrow>
          let db1 = (if s_assigned_to row \<noteq> None
                        \<and> (from_customer = None \<or> s_assigned_to row = from_customer)
                     then unassign_serial serial False db else db)
          in db1\<lparr>materials :=
                   map (\<lambda>m. if m_id m = s_material_id row then m\<lparr>m_is_used := 1\<rparr> else m)
                     (materials db1)\<rparr>)"

primrec transfer_serials_to_used :: "string list \<Rightarrow> string option \<Rightarrow> database \<Rightarrow> database" where
  "transfer_serials_to_used [] from_customer db = db"
| "transfer_serials_to_used (serial # serials) from_customer db =
     transfer_serials_to_used serials from_customer (transfer_serial from_customer db serial)"

section \<open>Consistency of serials and assignment records\<close>

text \<open>The assignment records of a serial that are not soft-deleted.\<close>

definition active_records :: "database \<Rightarrow> string \<Rightarrow> assignment list" where
  "active_records db serial =
     filter (\<lambda>a. a_serial a = serial \<and> a_deleted a = 0) (assignments db)"

text \<open>All assignment records of a serial, soft-deleted or not: its history.\<close>

definition history :: "database \<Rightarrow> string \<Rightarrow> assignment list" where
  "history db serial = filter (\<lambda>a. a_serial a = serial) (assignments db)"

text \<open>
  The invariant of the data model: a serial row has a holder exactly when one active
  assignment record references it.
\<close>

definition assigned_iff_one_active :: "database \<Rightarrow> bool" where
  "assigned_iff_one_active db \<longleftrightarrow>
     (\<forall>r \<in> set (serial_numbers db).
        (s_assigned_to r \<noteq> None) = (length (active_records db (s_serial r)) = 1))"

text \<open>
  What the tables guarantee besides: the primary keys \<^verbatim>\<open>serial_numbers.serial\<close> and
  \<^verbatim>\<open>assignments.id\<close> are unique, every assignment record references a serial row
  (the foreign key), and an available serial has no active record at all.
\<close>

definition store_consistent :: "database \<Rightarrow> bool" where
  "store_consistent db \<longleftrightarrow>
     distinct (map s_serial (serial_numbers db)) \<and>
     distinct (map a_id (assignments db)) \<and>
     (\<forall>a \<in> set (assignments db). a_serial a \<in> set (map s_serial (serial_numbers db))) \<and>
     (\<forall>r \<in> set (serial_numbers db).
        length (active_records db (s_serial r)) = (if s_assigned_to r = None then 0 else 1))"

text \<open>
  The states the service can bring a freshly migrated store into. The last rule stands
  for \<^verbatim>\<open>update_customer\<close>, \<^verbatim>\<open>set_material_fields\<close>, \<^verbatim>\<open>autocategorize_material\<close>,
  \<^verbatim>\<open>set_material_category\<close> and \<^verbatim>\<open>learn_category_alias\<close>, whose statements write
  the customers, materials and alias tables only.
\<close>

inductive reachable :: "database \<Rightarrow> bool" where
  initial: "reachable empty_database"
| customer_added:
    "reachable db \<Longrightarrow> add_customer customer_id name phone email pin4 db = Inr db'
       \<Longrightarrow> reachable db'"
| material_added:
    "reachable db \<Longrightarrow>
       reachable (fst (add_material name model producer description image_path retail_price
                         is_used warranty_months db))"
| serials_added:
    "reachable db \<Longrightarrow>
       reachable (add_serials_to_material material_id serials production_date
                    acquisition_date retail_price db)"
| serials_deleted: "reachable db \<Longrightarrow> reachable (delete_serials serials db)"
| assigned:
    "reachable db \<Longrightarrow> assign_serial_to_customer customer_id serial today db = Inr db'
       \<Longrightarrow> reachable db'"
| unassigned: "reachable db \<Longrightarrow> reachable (unassign_serial serial force db)"
| transferred: "reachable db \<Longrightarrow> reachable (transfer_serials_to_used serials from_customer db)"
| other_tables_written:
    "reachable db \<Longrightarrow> serial_numbers db' = serial_numbers db
       \<Longrightarrow> assignments db' = assignments db \<Longrightarrow> reachable db'"

section \<open>The store of smoke\_test.py\<close>

text \<open>
  \<^verbatim>\<open>run_smoke_test\<close> adds customer \<^verbatim>\<open>C001\<close>, the material \<^verbatim>\<open>Camera 4MP\<close> and
  its serials \<^verbatim>\<open>S001\<close>, \<^verbatim>\<open>S002\<close>, \<^verbatim>\<open>S003\<close>: the store then is \<open>smoke_stock\<close>.
  Assigning \<^verbatim>\<open>S001\<close> to \<^verbatim>\<open>C001\<close> (on the day \<^verbatim>\<open>2024-06-01\<close>, say) gives
  \<open>smoke_assigned\<close>.
\<close>

definition smoke_material :: material where
  "smoke_material =
     \<lparr>m_id = 1, m_name = ''Camera 4MP'', m_model = ''DS-2CD2343G2-I'',
      m_producer = Some ''HIKVISION'', m_description = Some ''Dome camera'',
      m_image_path = None, m_retail_price = Some 100, m_is_used = 0,
      m_warranty_months = Some 24, m_category = None, m_auto_category = None,
      m_auto_confidence = 0, m_model_family = None\<rparr>"

definition smoke_serial :: "string \<Rightarrow> string option \<Rightarrow> serial_number" where
  "smoke_serial serial holder =
     \<lparr>s_serial = serial, s_material_id = 1, s_production_date = Some ''2024-01-01'',
      s_acquisition_date = None, s_warranty_expiration = None, s_assigned_to = holder,
      s_extra_json = None, s_retail_price = None\<rparr>"

definition smoke_stock :: database where
  "smoke_stock =
     \<lparr>customers = [\<lparr>c_id = ''C001'', c_name = ''Alpha Corp'', c_phone = Some ''123456789'',
                     c_email = Some ''alpha@example.com'', c_pin4 = Some ''1234''\<rparr>],
      materials = [smoke_material], materials_seq = 1,
      serial_numbers =
        [smoke_serial ''S001'' None, smoke_serial ''S002'' None, smoke_serial ''S003'' None],
      assignments = [], assignments_seq = 0\<rparr>"

definition smoke_record :: "int \<Rightarrow> assignment" where
  "smoke_record del =
     \<lparr>a_id = 1, a_customer_id = ''C001'', a_serial = ''S001'',
      a_assigned_date = ''2024-06-01'', a_material_id = 1, a_material_name = ''Camera 4MP'',
      a_material_model = ''DS-2CD2343G2-I'', a_warranty_expiration = None, a_deleted = del,
      a_extra_json = None\<rparr>"

definition smoke_assigned :: database where
  "smoke_assigned =
     smoke_stock\<lparr>
       serial_numbers :=
         [smoke_serial ''S001'' (Some ''C001''), smoke_serial ''S002'' None,
          smoke_serial ''S003'' None],
       assignments := [smoke_record 0], assignments_seq := 1\<rparr>"

section \<open>Properties of the role hierarchy\<close>

lemma role_level_le_4: "role_level r \<le> 4"
  by (simp add: role_level_def ROLE_LEVELS_def)

text \<open>
  Claim C10. The module documentation lets \<^verbatim>\<open>admin1\<close> add, edit or delete any user,
  and \<^verbatim>\<open>_allowed_new_roles\<close> exempts \<^verbatim>\<open>admin1\<close> from the strict comparison, but
  \<^verbatim>\<open>_can_manage_role\<close>, which guards editing and deleting, has no such exemption:
  an \<^verbatim>\<open>admin1\<close> actor is refused on an \<^verbatim>\<open>admin1\<close> target, although the same actor
  may create one.
\<close>

theorem can_manage_role_admin1_refused:
  "\<not> can_manage_role ''admin1'' ''admin1'' \<and> ''admin1'' \<in> set (allowed_new_roles ''admin1'')"
  by (simp add: can_manage_role_def allowed_new_roles_def ALL_ROLES_def)

section \<open>The serial and assignment invariant\<close>

lemma store_consistent_empty: "store_consistent empty_database"
  by (simp add: store_consistent_def empty_database_def)

lemma store_consistent_frame:
  "serial_numbers db' = serial_numbers db \<Longrightarrow> assignments db' = assignments db \<Longrightarrow>
   store_consistent db' = store_consistent db"
  by (simp add: store_consistent_def active_records_def)

lemma store_consistent_imp: "store_consistent db \<Longrightarrow> assigned_iff_one_active db"
  by (auto simp: store_consistent_def assigned_iff_one_active_def)

lemma insert_serial_consistent:
  "store_consistent db \<Longrightarrow> store_consistent (insert_serial m p a rp db s)"
  by (auto simp: store_consistent_def insert_serial_def active_records_def filter_empty_conv)

lemma add_serials_consistent:
  "store_consistent db \<Longrightarrow> store_consistent (add_serials_to_material m ss p a rp db)"
  by (induction ss arbitrary: db) (simp_all add: insert_serial_consistent)

lemma delete_serials_consistent:
  assumes "store_consistent db"
  shows "store_consistent (delete_serials ss db)"
proof -
  let ?S = "serial_numbers db" and ?A = "assignments db"
  let ?S' = "filter (\<lambda>r. s_serial r \<notin> set ss) ?S"
  let ?A' = "filter (\<lambda>a. a_serial a \<notin> set (map s_serial (filter (\<lambda>r. s_serial r \<in> set ss) ?S))) ?A"
  have sn: "serial_numbers (delete_serials ss db) = ?S'"
    and asg: "assignments (delete_serials ss db) = ?A'"
    by (simp_all add: delete_serials_def Let_def)
  have d1: "distinct (map s_serial ?S')" and d2: "distinct (map a_id ?A')"
    using assms by (simp_all add: store_consistent_def distinct_map_filter)
  have fk: "\<forall>a\<in>set ?A'. a_serial a \<in> set (map s_serial ?S')"
    using assms unfolding store_consistent_def by simp blast
  have cnt: "filter (\<lambda>a. a_serial a = s_serial r \<and> a_deleted a = 0) ?A'
           = filter (\<lambda>a. a_serial a = s_serial r \<and> a_deleted a = 0) ?A" if "r \<in> set ?S'" for r
    using that by (auto intro!: filter_cong)
  show ?thesis
    unfolding store_consistent_def active_records_def sn asg
    using d1 d2 fk cnt assms
    by (simp add: store_consistent_def active_records_def)
qed


lemma next_rowid_fresh: "x \<in> set ids \<Longrightarrow> x < next_rowid seq ids"
proof -
  assume "x \<in> set ids"
  then have "x \<le> Max (set (seq # ids))" by simp
  then show ?thesis unfolding next_rowid_def Max.set_eq_fold by simp
qed

lemma next_rowid_notin: "next_rowid seq ids \<notin> set ids"
  using next_rowid_fresh [of "next_rowid seq ids" ids seq] by auto

lemma most_recent_mem: "most_recent xs = Some a \<Longrightarrow> a \<in> set xs"
  by (induction xs arbitrary: a) (auto split: option.splits if_splits)

lemma most_recent_None: "most_recent xs = None \<longleftrightarrow> xs = []"
  by (cases xs) (auto split: option.splits)

lemma map_serials_key:
  "map s_serial (map (\<lambda>r. if s_serial r = s then r\<lparr>s_assigned_to := v\<rparr> else r) rows)
     = map s_serial rows"
  by (induction rows) auto

lemma find_SomeD: "find P xs = Some x \<Longrightarrow> x \<in> set xs \<and> P x"
  by (induction xs) (auto split: if_splits)

lemma assign_InrD:
  assumes "assign_serial_to_customer c s today db = Inr db'"
  shows "\<exists>res mat new. res \<in> set (serial_numbers db) \<and> s_serial res = s \<and> s_assigned_to res = None
      \<and> find (\<lambda>r. s_serial r = s \<and> s_assigned_to r = None) (serial_numbers db) = Some res
      \<and> find (\<lambda>m. m_id m = s_material_id res) (materials db) = Some mat
      \<and> c \<in> set (map c_id (customers db))
      \<and> new = \<lparr>a_id = next_rowid (assignments_seq db) (map a_id (assignments db)),
                 a_customer_id = c, a_serial = s,
                 a_assigned_date = today, a_material_id = s_material_id res,
                 a_material_name = m_name mat, a_material_model = m_model mat,
                 a_warranty_expiration = s_warranty_expiration res,
                 a_deleted = 0, a_extra_json = None\<rparr>
      \<and> assignments db' = assignments db @ [new]
      \<and> serial_numbers db' =
           map (\<lambda>r. if s_serial r = s then r\<lparr>s_assigned_to := Some c\<rparr> else r) (serial_numbers db)
      \<and> customers db' = customers db \<and> materials db' = materials db
      \<and> materials_seq db' = materials_seq db \<and> assignments_seq db' = a_id new"
  using assms
  by (auto simp: assign_serial_to_customer_def Let_def split: option.splits if_splits dest: find_SomeD)

lemma assign_consistent:
  assumes "store_consistent db" and "assign_serial_to_customer c s today db = Inr db'"
  shows "store_consistent db'"
proof -
  from assign_InrD [OF assms(2)] obtain res new where
    res: "res \<in> set (serial_numbers db)" "s_serial res = s" "s_assigned_to res = None"
    and new: "a_id new = next_rowid (assignments_seq db) (map a_id (assignments db))"
       "a_serial new = s" "a_deleted new = 0"
    and sn: "serial_numbers db' = map (\<lambda>r. if s_serial r = s then r\<lparr>s_assigned_to := Some c\<rparr> else r) (serial_numbers db)"
    and asg: "assignments db' = assignments db @ [new]"
    by fastforce
  have keys: "map s_serial (serial_numbers db') = map s_serial (serial_numbers db)"
    by (simp add: sn map_serials_key)
  have act: "active_records db' x = active_records db x @ (if x = s then [new] else [])" for x
    by (simp add: active_records_def asg new)
  have zero: "active_records db s = []"
    using assms(1) res by (auto simp: store_consistent_def)
  have d2: "distinct (map a_id (assignments db'))"
    using assms(1) by (simp add: asg new next_rowid_notin store_consistent_def del: set_map)
  have fk: "\<forall>a\<in>set (assignments db'). a_serial a \<in> set (map s_serial (serial_numbers db'))"
    unfolding keys using assms(1) res by (auto simp: asg new store_consistent_def)
  have cnt: "length (active_records db' (s_serial r)) = (if s_assigned_to r = None then 0 else 1)"
    if "r \<in> set (serial_numbers db')" for r
    using that assms(1) zero unfolding sn act by (auto simp: store_consistent_def)
  show ?thesis
    unfolding store_consistent_def keys using assms(1) d2 fk cnt
    by (simp add: store_consistent_def keys)
qed


lemma filter_map_mark:
  assumes "\<not> P (f a)" and "\<And>x. x \<noteq> a \<Longrightarrow> f x = x"
  shows "filter P (map f xs) = filter (\<lambda>x. P x \<and> x \<noteq> a) xs"
proof (induction xs)
  case Nil
  show ?case by simp
next
  case (Cons x xs)
  then show ?case using assms by (cases "x = a") auto
qed

lemma filter_eq_ConsD: "filter P xs = a # rest \<Longrightarrow> a \<in> set xs \<and> P a"
proof -
  assume "filter P xs = a # rest"
  then have "a \<in> set (filter P xs)" by simp
  then show ?thesis by simp
qed

lemma unassign_serial_numbers:
  "serial_numbers (unassign_serial s force db) =
     map (\<lambda>r. if s_serial r = s then r\<lparr>s_assigned_to := None\<rparr> else r) (serial_numbers db)"
  by (simp add: unassign_serial_def Let_def)

lemma unassign_no_active:
  assumes "active_records db s = []"
  shows "assignments (unassign_serial s force db) = assignments db"
  using assms by (simp add: unassign_serial_def active_records_def Let_def)

lemma unassign_active:
  assumes "distinct (map a_id (assignments db))" and "active_records db s = [a]"
  shows "assignments (unassign_serial s force db) =
          (if force then filter (\<lambda>x. x \<noteq> a) (assignments db)
           else map (\<lambda>x. if x = a then x\<lparr>a_deleted := 1\<rparr> else x) (assignments db))"
proof -
  have mem: "a \<in> set (assignments db)"
    using assms(2) unfolding active_records_def by (auto dest: filter_eq_ConsD)
  have inj: "inj_on a_id (set (assignments db))"
    using assms(1) by (simp add: distinct_map)
  have eq: "x \<in> set (assignments db) \<Longrightarrow> a_id x = a_id a \<longleftrightarrow> x = a" for x
    using inj mem by (auto dest: inj_onD)
  have mr: "most_recent (filter (\<lambda>a. a_serial a = s \<and> a_deleted a = 0) (assignments db)) = Some a"
    using assms(2) by (simp add: active_records_def)
  show ?thesis
    unfolding unassign_serial_def Let_def mr
    using eq by (auto intro!: filter_cong map_cong)
qed

lemma unassign_consistent:
  assumes "store_consistent db"
  shows "store_consistent (unassign_serial s force db)"
proof -
  let ?db' = "unassign_serial s force db"
  have keys: "map s_serial (serial_numbers ?db') = map s_serial (serial_numbers db)"
    by (simp add: unassign_serial_numbers map_serials_key)
  have dist: "distinct (map a_id (assignments db))"
    and fk: "\<forall>a\<in>set (assignments db). a_serial a \<in> set (map s_serial (serial_numbers db))"
    and cnt: "\<And>r. r \<in> set (serial_numbers db) \<Longrightarrow>
        length (active_records db (s_serial r)) = (if s_assigned_to r = None then 0 else 1)"
    using assms by (simp_all add: store_consistent_def)
  show ?thesis
  proof (cases "active_records db s")
    case Nil
    have asg: "assignments ?db' = assignments db" by (rule unassign_no_active [OF Nil])
    have act: "active_records ?db' x = active_records db x" for x
      by (simp add: active_records_def asg)
    have "\<forall>r\<in>set (serial_numbers db). length (active_records ?db' (s_serial r)) =
            (if s_serial r = s \<or> s_assigned_to r = None then 0 else 1)"
    proof
      fix r assume "r \<in> set (serial_numbers db)"
      from cnt [OF this] Nil
      show "length (active_records ?db' (s_serial r)) =
            (if s_serial r = s \<or> s_assigned_to r = None then 0 else 1)"
        unfolding act by auto
    qed
    then show ?thesis
      unfolding store_consistent_def keys using assms
      by (auto simp: store_consistent_def asg unassign_serial_numbers)
  next
    case (Cons a rest)
    then have a: "a \<in> set (assignments db)" "a_serial a = s" "a_deleted a = 0"
      unfolding active_records_def by (auto dest: filter_eq_ConsD)
    then obtain r where r: "r \<in> set (serial_numbers db)" "s_serial r = s"
      using fk by auto
    from cnt [OF r(1)] Cons r(2) have one: "active_records db s = [a]"
      by (cases rest) (auto split: if_splits)
    note asg = unassign_active [OF dist one, of force]
    have act: "active_records ?db' x = filter (\<lambda>b. b \<noteq> a) (active_records db x)" for x
      unfolding active_records_def asg
      by (cases force) (auto simp: filter_map_mark [where a = a] intro!: filter_cong)
    have other: "x \<noteq> s \<Longrightarrow> filter (\<lambda>b. b \<noteq> a) (active_records db x) = active_records db x" for x
      using a(2) by (auto simp: active_records_def intro!: filter_cong)
    have ids: "(\<lambda>x. a_id (if x = a then x\<lparr>a_deleted := 1\<rparr> else x)) = a_id"
      by auto
    have d2: "distinct (map a_id (assignments ?db'))"
      using dist unfolding asg by (cases force) (simp_all add: distinct_map_filter comp_def ids)
    have fk': "\<forall>b\<in>set (assignments ?db'). a_serial b \<in> set (map s_serial (serial_numbers db))"
      using fk unfolding asg by (cases force) auto
    have "\<forall>r\<in>set (serial_numbers db). length (active_records ?db' (s_serial r)) =
            (if s_serial r = s \<or> s_assigned_to r = None then 0 else 1)"
    proof
      fix r assume "r \<in> set (serial_numbers db)"
      from cnt [OF this] one other [of "s_serial r"]
      show "length (active_records ?db' (s_serial r)) =
            (if s_serial r = s \<or> s_assigned_to r = None then 0 else 1)"
        unfolding act by auto
    qed
    then show ?thesis
      unfolding store_consistent_def keys using assms d2 fk'
      by (auto simp: store_consistent_def unassign_serial_numbers)
  qed
qed


lemma transfer_serial_consistent:
  assumes "store_consistent db"
  shows "store_consistent (transfer_serial from_customer db s)"
proof (cases "find (\<lambda>r. s_serial r = s) (serial_numbers db)")
  case None
  then show ?thesis using assms by (simp add: transfer_serial_def)
next
  case (Some row)
  let ?db1 = "if s_assigned_to row \<noteq> None
                 \<and> (from_customer = None \<or> s_assigned_to row = from_customer)
              then unassign_serial s False db else db"
  have "store_consistent ?db1"
    using assms by (simp add: unassign_consistent)
  moreover have "store_consistent (?db1\<lparr>materials := ms\<rparr>) = store_consistent ?db1" for ms
    by (rule store_consistent_frame) simp_all
  ultimately show ?thesis
    unfolding transfer_serial_def Some Let_def by simp
qed

lemma transfer_consistent:
  "store_consistent db \<Longrightarrow> store_consistent (transfer_serials_to_used ss from_customer db)"
  by (induction ss arbitrary: db) (simp_all add: transfer_serial_consistent)

lemma add_customer_consistent:
  "store_consistent db \<Longrightarrow> add_customer c n p e pin db = Inr db' \<Longrightarrow> store_consistent db'"
  using store_consistent_frame [of db' db]
  by (auto simp: add_customer_def split: if_splits)

lemma add_material_consistent:
  "store_consistent db \<Longrightarrow> store_consistent (fst (add_material n m p d i rp u w db))"
  using store_consistent_frame [of "fst (add_material n m p d i rp u w db)" db]
  by (simp add: add_material_def Let_def)

lemma reachable_consistent: "reachable db \<Longrightarrow> store_consistent db"
proof (induction rule: reachable.induct)
  case initial
  show ?case by (rule store_consistent_empty)
next
  case (other_tables_written db db')
  then show ?case using store_consistent_frame [of db' db] by simp
next
  case (customer_added db customer_id name phone email pin4 db')
  then show ?case by (blast intro: add_customer_consistent)
next
  case (assigned db customer_id serial today db')
  then show ?case by (blast intro: assign_consistent)
qed (simp_all add: add_material_consistent add_serials_consistent
       delete_serials_consistent unassign_consistent transfer_consistent)

text \<open>
  Claim C1. In every state the service can reach, a serial row has a holder if and only
  if exactly one assignment record that is not soft-deleted references it; the states
  that \<^verbatim>\<open>unassign_serial\<close>, \<^verbatim>\<open>transfer_serials_to_used\<close>, \<^verbatim>\<open>delete_serials\<close>,
  \<^verbatim>\<open>add_serials_to_material\<close> and a successful \<^verbatim>\<open>assign_serial_to_customer\<close> lead
  to satisfy it again (a failed assign leaves the store as it was).
\<close>

theorem serial_assignment_invariant:
  assumes "reachable db"
  shows "assigned_iff_one_active db
     \<and> assigned_iff_one_active (unassign_serial serial force db)
     \<and> assigned_iff_one_active (transfer_serials_to_used serials from_customer db)
     \<and> assigned_iff_one_active (delete_serials serials db)
     \<and> assigned_iff_one_active
          (add_serials_to_material material_id serials production_date acquisition_date
             retail_price db)
     \<and> (case assign_serial_to_customer customer_id serial today db of
          Inl e \<Rightarrow> True | Inr db' \<Rightarrow> assigned_iff_one_active db')"
proof -
  have "assigned_iff_one_active d" if "reachable d" for d
    using that by (simp add: reachable_consistent store_consistent_imp)
  note inv = this
  have "assigned_iff_one_active db'"
    if "assign_serial_to_customer customer_id serial today db = Inr db'" for db'
    using inv [OF reachable.assigned [OF assms that]] .
  then show ?thesis
    using inv [OF assms] inv [OF reachable.unassigned [OF assms]]
      inv [OF reachable.transferred [OF assms]] inv [OF reachable.serials_deleted [OF assms]]
      inv [OF reachable.serials_added [OF assms]]
    by (simp split: sum.splits)
qed


subsection \<open>The smoke test's store is reachable\<close>

lemma smoke_stock_built:
  "\<exists>db1. add_customer ''C001'' ''Alpha Corp'' (Some ''123456789'') (Some ''alpha@example.com'')
           (Some ''1234'') empty_database = Inr db1
     \<and> add_material ''Camera 4MP'' ''DS-2CD2343G2-I'' (Some ''HIKVISION'') (Some ''Dome camera'')
           None (Some 100) 0 (Some 24) db1
         = (db1\<lparr>materials := [smoke_material], materials_seq := 1\<rparr>, 1)
     \<and> add_serials_to_material 1 [''S001'', ''S002'', ''S003''] (Some ''2024-01-01'') None None
           (db1\<lparr>materials := [smoke_material], materials_seq := 1\<rparr>) = smoke_stock"
  by (simp add: add_customer_def empty_database_def add_material_def next_rowid_def
        insert_serial_def smoke_stock_def smoke_material_def smoke_serial_def)

lemma smoke_stock_reachable: "reachable smoke_stock"
proof -
  from smoke_stock_built obtain db1 where
    1: "add_customer ''C001'' ''Alpha Corp'' (Some ''123456789'') (Some ''alpha@example.com'')
           (Some ''1234'') empty_database = Inr db1"
    and 2: "fst (add_material ''Camera 4MP'' ''DS-2CD2343G2-I'' (Some ''HIKVISION'') (Some ''Dome camera'')
           None (Some 100) 0 (Some 24) db1)
         = db1\<lparr>materials := [smoke_material], materials_seq := 1\<rparr>"
    and 3: "add_serials_to_material 1 [''S001'', ''S002'', ''S003''] (Some ''2024-01-01'') None None
           (db1\<lparr>materials := [smoke_material], materials_seq := 1\<rparr>) = smoke_stock"
    by fastforce
  have "reachable db1"
    using reachable.customer_added [OF reachable.initial 1] .
  from reachable.material_added [OF this, of "''Camera 4MP''" "''DS-2CD2343G2-I''" "Some ''HIKVISION''" "Some ''Dome camera''" None "Some 100" 0 "Some 24"]
  have "reachable (db1\<lparr>materials := [smoke_material], materials_seq := 1\<rparr>)"
    unfolding 2 .
  from reachable.serials_added [OF this, of 1 "[''S001'', ''S002'', ''S003'']" "Some ''2024-01-01''" None None]
  show ?thesis unfolding 3 .
qed

lemma smoke_assign:
  "assign_serial_to_customer ''C001'' ''S001'' ''2024-06-01'' smoke_stock = Inr smoke_assigned"
  by (simp add: assign_serial_to_customer_def smoke_stock_def smoke_assigned_def
        smoke_serial_def smoke_material_def smoke_record_def next_rowid_def)

lemma smoke_assigned_reachable: "reachable smoke_assigned"
  using reachable.assigned [OF smoke_stock_reachable smoke_assign] .

theorem serial_assignment_invariant_witness:
  "reachable smoke_assigned \<and> assigned_iff_one_active smoke_assigned
     \<and> map s_assigned_to (serial_numbers smoke_assigned) = [Some ''C001'', None, None]
     \<and> length (active_records smoke_assigned ''S001'') = 1
     \<and> assigned_iff_one_active (unassign_serial ''S001'' False smoke_assigned)"
  using serial_assignment_invariant [OF smoke_assigned_reachable, of "''S001''" False]
    smoke_assigned_reachable
  by (simp add: smoke_assigned_def smoke_serial_def smoke_record_def active_records_def)

section \<open>Assigning a serial\<close>
















section \<open>Assign, then unassign\<close>









section \<open>Deleting serials\<close>

lemma delete_serials_rows:
  "serial_numbers (delete_serials serials db)
     = filter (\<lambda>r. s_serial r \<notin> set serials) (serial_numbers db)"
  by (simp add: delete_serials_def Let_def)

lemma delete_serials_records:
  "assignments (delete_serials serials db)
     = filter (\<lambda>a. a_serial a \<notin> set (map s_serial
                 (filter (\<lambda>r. s_serial r \<in> set serials) (serial_numbers db))))
         (assignments db)"
  by (simp add: delete_serials_def Let_def)

lemma removed_keys:
  "set (map s_serial (filter (\<lambda>r. s_serial r \<in> set serials) rows))
     = set (map s_serial rows) \<inter> set serials"
  by (induction rows) auto

lemma delete_serials_history:
  "history (delete_serials serials db) serial
     = (if serial \<in> set serials \<and> serial \<in> set (map s_serial (serial_numbers db))
        then [] else history db serial)"
proof -
  let ?K = "set (map s_serial (serial_numbers db)) \<inter> set serials"
  have h: "history (delete_serials serials db) serial
        = filter (\<lambda>a. a_serial a \<notin> ?K \<and> a_serial a = serial) (assignments db)"
    unfolding history_def delete_serials_records removed_keys filter_filter ..
  show ?thesis
  proof (cases "serial \<in> ?K")
    case True
    then have "filter (\<lambda>a. a_serial a \<notin> ?K \<and> a_serial a = serial) (assignments db) = []"
      unfolding filter_empty_conv by blast
    moreover have "serial \<in> set serials \<and> serial \<in> set (map s_serial (serial_numbers db))"
      using True by blast
    ultimately show ?thesis unfolding h by simp
  next
    case False
    then have e: "filter (\<lambda>a. a_serial a \<notin> ?K \<and> a_serial a = serial) (assignments db)
             = filter (\<lambda>a. a_serial a = serial) (assignments db)"
      by (intro filter_cong refl) blast
    have "history (delete_serials serials db) serial = history db serial"
      by (simp only: h e, simp only: history_def)
    moreover have "\<not> (serial \<in> set serials \<and> serial \<in> set (map s_serial (serial_numbers db)))"
      using False by blast
    ultimately show ?thesis by (simp only: if_not_P if_False)
  qed
qed

lemma get_serials_keys:
  "set (get_serials_by_material material_id include_assigned db)
     \<subseteq> set (serial_numbers db)"
  by (cases include_assigned) (simp_all add: get_serials_by_material_def subset_iff)

text \<open>
  Claim C2, as the code has it. \<^verbatim>\<open>delete_serials\<close> removes the rows of the listed
  serials, so none of them is in any \<^verbatim>\<open>get_serials_by_material\<close> result; the
  \<^verbatim>\<open>ON DELETE CASCADE\<close> foreign key of \<^verbatim>\<open>assignments.serial\<close> removes with each
  deleted row all its assignment records; the history of every other serial, the
  customers and the materials are unchanged.
\<close>

theorem delete_serials_cascade:
  "set (map s_serial (get_serials_by_material material_id include_assigned
                       (delete_serials serials db))) \<inter> set serials = {}
   \<and> serial_numbers (delete_serials serials db)
       = filter (\<lambda>r. s_serial r \<notin> set serials) (serial_numbers db)
   \<and> history (delete_serials serials db) serial
       = (if serial \<in> set serials \<and> serial \<in> set (map s_serial (serial_numbers db))
          then [] else history db serial)
   \<and> customers (delete_serials serials db) = customers db
   \<and> materials (delete_serials serials db) = materials db"
proof (intro conjI)
  have "s_serial r \<notin> set serials"
    if "r \<in> set (get_serials_by_material material_id include_assigned
                    (delete_serials serials db))" for r
  proof -
    from that get_serials_keys have "r \<in> set (serial_numbers (delete_serials serials db))"
      by blast
    then show ?thesis unfolding delete_serials_rows by simp
  qed
  then show "set (map s_serial (get_serials_by_material material_id include_assigned
                       (delete_serials serials db))) \<inter> set serials = {}"
    unfolding set_map by blast
  show "serial_numbers (delete_serials serials db)
       = filter (\<lambda>r. s_serial r \<notin> set serials) (serial_numbers db)"
    by (rule delete_serials_rows)
  show "history (delete_serials serials db) serial
       = (if serial \<in> set serials \<and> serial \<in> set (map s_serial (serial_numbers db))
          then [] else history db serial)"
    by (rule delete_serials_history)
  show "customers (delete_serials serials db) = customers db"
    "materials (delete_serials serials db) = materials db"
    by (simp_all add: delete_serials_def Let_def)
qed

text \<open>
  Claim C2 as stated fails: \<^verbatim>\<open>S001\<close> has one assignment record in \<open>smoke_assigned\<close>,
  and none after \<^verbatim>\<open>delete_serials(["S001"])\<close>.
\<close>

theorem delete_serials_history_counterexample:
  "history smoke_assigned ''S001'' = [smoke_record 0]
   \<and> history (delete_serials [''S001''] smoke_assigned) ''S001'' = []"
  by (simp add: history_def delete_serials_def smoke_assigned_def smoke_stock_def
        smoke_serial_def smoke_record_def)

end
